theory Spec2Isabelle
  imports Complex_Main
begin

section \<open>Numbers\<close>

text \<open>
  The TypeScript source computes on \<^verbatim>\<open>number\<close>. The model takes every finite number as an
  exact \<^typ>\<open>real\<close>; the rounding of IEEE doubles is not part of it. The one non-finite
  constant the tax tables hold, the \<^verbatim>\<open>Infinity\<close> that closes the last bracket, is kept by
  the type \<open>bound\<close>.
\<close>

datatype bound = Finite real | Infinity

text \<open>\<^verbatim>\<open>bracket.max - bracket.min + 1\<close>: an unbounded \<^verbatim>\<open>max\<close> gives an unbounded width.\<close>

fun width_of :: "bound \<Rightarrow> real \<Rightarrow> bound" where
  "width_of (Finite m) lo = Finite (m - lo + 1)"
| "width_of Infinity lo = Infinity"

text \<open>\<^verbatim>\<open>Math.min(x, w)\<close> for a finite \<open>x\<close>.\<close>

fun Math_min :: "real \<Rightarrow> bound \<Rightarrow> real" where
  "Math_min x (Finite w) = min x w"
| "Math_min x Infinity = x"

section \<open>Tax constants (TAX_RATES)\<close>

record bracket =
  bracket_min :: real
  bracket_max :: bound
  rate :: real

definition SMALL_BUSINESS_RATE :: real where
  "SMALL_BUSINESS_RATE = 0.122"

definition PERSONAL_BRACKETS :: "bracket list" where
  "PERSONAL_BRACKETS =
    [\<lparr>bracket_min = 0, bracket_max = Finite 51446, rate = 0.2005\<rparr>,
     \<lparr>bracket_min = 51447, bracket_max = Finite 55867, rate = 0.2415\<rparr>,
     \<lparr>bracket_min = 55868, bracket_max = Finite 102894, rate = 0.2965\<rparr>,
     \<lparr>bracket_min = 102895, bracket_max = Finite 111733, rate = 0.3166\<rparr>,
     \<lparr>bracket_min = 111734, bracket_max = Finite 150000, rate = 0.3716\<rparr>,
     \<lparr>bracket_min = 150001, bracket_max = Finite 173205, rate = 0.3816\<rparr>,
     \<lparr>bracket_min = 173206, bracket_max = Finite 220000, rate = 0.4116\<rparr>,
     \<lparr>bracket_min = 220001, bracket_max = Finite 246752, rate = 0.4216\<rparr>,
     \<lparr>bracket_min = 246753, bracket_max = Infinity, rate = 0.4953\<rparr>]"

definition CPP_YMPE :: real where "CPP_YMPE = 68500"
definition CPP_BASIC_EXEMPTION :: real where "CPP_BASIC_EXEMPTION = 3500"
definition CPP_EMPLOYEE_RATE :: real where "CPP_EMPLOYEE_RATE = 0.0595"
definition CPP_YAMPE :: real where "CPP_YAMPE = 73200"
definition CPP_CPP2_RATE :: real where "CPP_CPP2_RATE = 0.04"

definition EI_MIE :: real where "EI_MIE = 63200"
definition EI_EMPLOYEE_RATE :: real where "EI_EMPLOYEE_RATE = 0.0166"
definition EI_EMPLOYER_RATE :: real where "EI_EMPLOYER_RATE = 0.02324"

definition DIVIDEND_GROSS_UP :: real where "DIVIDEND_GROSS_UP = 0.15"
definition DIVIDEND_FEDERAL_DTC :: real where "DIVIDEND_FEDERAL_DTC = 0.090301"
definition DIVIDEND_ONTARIO_DTC :: real where "DIVIDEND_ONTARIO_DTC = 0.029863"

section \<open>calculatePersonalTax\<close>

text \<open>
  The \<^verbatim>\<open>for\<close> loop over the brackets, with its two variables \<^verbatim>\<open>tax\<close> and
  \<^verbatim>\<open>remainingIncome\<close> as the state; the first equation of the step is the \<^verbatim>\<open>break\<close>.
  The loop returns both variables, so that what is left of the income can be stated.
\<close>

fun personalTaxLoop :: "bracket list \<Rightarrow> real \<Rightarrow> real \<Rightarrow> real \<times> real" where
  "personalTaxLoop [] tax remainingIncome = (tax, remainingIncome)"
| "personalTaxLoop (b # bs) tax remainingIncome =
     (if remainingIncome \<le> 0 then (tax, remainingIncome)
      else
        let bracketWidth = width_of (bracket_max b) (bracket_min b);
            taxableInThisBracket = Math_min remainingIncome bracketWidth
        in personalTaxLoop bs (tax + taxableInThisBracket * rate b)
             (remainingIncome - taxableInThisBracket))"

definition calculatePersonalTax :: "real \<Rightarrow> real" where
  "calculatePersonalTax taxableIncome = fst (personalTaxLoop PERSONAL_BRACKETS 0 taxableIncome)"

text \<open>
  The walk as section 4.1 of the specification words it, with no accumulator: the tax of
  an income over a table is the tax of the part that falls in the first bracket plus the
  tax of the rest over the other brackets, and nothing once the income is used up or the
  table is exhausted.
\<close>

fun spec_bracket_walk :: "bracket list \<Rightarrow> real \<Rightarrow> real" where
  "spec_bracket_walk [] remaining = 0"
| "spec_bracket_walk (b # bs) remaining =
     (if remaining \<le> 0 then 0
      else
        (case bracket_max b of
           Finite m \<Rightarrow>
             min remaining (m - bracket_min b + 1) * rate b
               + spec_bracket_walk bs (remaining - min remaining (m - bracket_min b + 1))
         | Infinity \<Rightarrow> remaining * rate b + spec_bracket_walk bs 0))"

subsection \<open>The bracket table as a partition of the incomes\<close>

text \<open>
  The part of an income that falls in a bracket: what the income exceeds the \<^verbatim>\<open>min\<close> of
  the bracket by, held between zero and the width \<^verbatim>\<open>max - min + 1\<close>.
\<close>

definition bracket_portion :: "bracket \<Rightarrow> real \<Rightarrow> real" where
  "bracket_portion b x =
     (case bracket_max b of
        Finite m \<Rightarrow> min (max (x - bracket_min b) 0) (m - bracket_min b + 1)
      | Infinity \<Rightarrow> max (x - bracket_min b) 0)"

text \<open>
  The invariant of the bracket table (section 3 of the specification): the brackets
  start at \<open>lo\<close>, each one begins one unit after the end of the one before, only the
  last is unbounded, and no rate is negative.
\<close>

fun contiguous :: "real \<Rightarrow> bracket list \<Rightarrow> bool" where
  "contiguous lo [] = False"
| "contiguous lo (b # bs) =
     (bracket_min b = lo \<and> 0 \<le> rate b \<and>
      (case bracket_max b of
         Finite m \<Rightarrow> lo \<le> m \<and> contiguous (m + 1) bs
       | Infinity \<Rightarrow> bs = []))"

text \<open>
  An income is in a bracket when it lies in the closed interval from \<^verbatim>\<open>min\<close> to
  \<^verbatim>\<open>max\<close>. The linear piece of a bracket reaches one unit further, to the \<^verbatim>\<open>min\<close>
  of the next bracket, because the loop takes \<^verbatim>\<open>max - min + 1\<close> as the width.
\<close>

definition in_bracket :: "bracket \<Rightarrow> real \<Rightarrow> bool" where
  "in_bracket b x =
     (bracket_min b \<le> x \<and> (case bracket_max b of Finite m \<Rightarrow> x \<le> m | Infinity \<Rightarrow> True))"

definition on_piece :: "bracket \<Rightarrow> real \<Rightarrow> bool" where
  "on_piece b x =
     (bracket_min b \<le> x \<and> (case bracket_max b of Finite m \<Rightarrow> x \<le> m + 1 | Infinity \<Rightarrow> True))"

section \<open>calculateCPPContributions, calculateEIContributions\<close>

record contributions =
  employee :: real
  employer :: real

text \<open>
  The local constants \<^verbatim>\<open>cpp1\<close> and \<^verbatim>\<open>cpp2\<close> of \<^verbatim>\<open>calculateCPPContributions\<close> are named, so
  that the two components of the contribution can be stated apart.
\<close>

definition cpp1 :: "real \<Rightarrow> real" where
  "cpp1 salary =
     (let contributoryEarnings =
            min (max (salary - CPP_BASIC_EXEMPTION) 0) (CPP_YMPE - CPP_BASIC_EXEMPTION)
      in contributoryEarnings * CPP_EMPLOYEE_RATE)"

definition cpp2 :: "real \<Rightarrow> real" where
  "cpp2 salary =
     (let cpp2Earnings = min (max (salary - CPP_YMPE) 0) (CPP_YAMPE - CPP_YMPE)
      in cpp2Earnings * CPP_CPP2_RATE)"

definition calculateCPPContributions :: "real \<Rightarrow> contributions" where
  "calculateCPPContributions salary =
     (let totalEmployee = cpp1 salary + cpp2 salary
      in \<lparr>employee = totalEmployee, employer = totalEmployee\<rparr>)"

definition calculateEIContributions :: "real \<Rightarrow> contributions" where
  "calculateEIContributions salary =
     (let insurable = min salary EI_MIE
      in \<lparr>employee = insurable * EI_EMPLOYEE_RATE, employer = insurable * EI_EMPLOYER_RATE\<rparr>)"

text \<open>The clamp of section 4.2 of the specification: \<open>v\<close> held between \<open>lo\<close> and \<open>hi\<close>.\<close>

definition clamp :: "real \<Rightarrow> real \<Rightarrow> real \<Rightarrow> real" where
  "clamp v lo hi = (if v < lo then lo else if hi < v then hi else v)"

section \<open>calculateDividendTax\<close>

record dividend_result =
  tax :: real
  grossedUp :: real

definition calculateDividendTax :: "real \<Rightarrow> real \<Rightarrow> dividend_result" where
  "calculateDividendTax dividend otherIncome =
     (let grossUp = dividend * DIVIDEND_GROSS_UP;
          grossedUpDividend = dividend + grossUp;
          totalTaxableIncome = otherIncome + grossedUpDividend;
          grossTax = calculatePersonalTax totalTaxableIncome - calculatePersonalTax otherIncome;
          federalDTC = grossedUpDividend * DIVIDEND_FEDERAL_DTC;
          ontarioDTC = grossedUpDividend * DIVIDEND_ONTARIO_DTC;
          totalDTC = federalDTC + ontarioDTC
      in \<lparr>tax = max (grossTax - totalDTC) 0, grossedUp = grossedUpDividend\<rparr>)"

section \<open>Numbers as text\<close>

text \<open>
  \<^verbatim>\<open>Math.round\<close> rounds to the nearest integer, a half towards plus infinity.
\<close>

definition Math_round :: "real \<Rightarrow> int" where
  "Math_round x = \<lfloor>x + 1 / 2\<rfloor>"

definition digit_char :: "nat \<Rightarrow> char" where
  "digit_char d = ''0123456789'' ! d"

fun decimal :: "nat \<Rightarrow> string" where
  "decimal n = (if n < 10 then [digit_char n] else decimal (n div 10) @ [digit_char (n mod 10)])"

declare decimal.simps [simp del]

text \<open>
  The group separators of the locale \<^verbatim>\<open>en-US\<close>, which the source assumes when it strips
  commas: a comma before every block of three digits, counted from the right. The
  function works on the reversed digits.
\<close>

fun group_reversed :: "string \<Rightarrow> string" where
  "group_reversed (a # b # c # d # ds) = a # b # c # CHR '','' # group_reversed (d # ds)"
| "group_reversed ds = ds"

definition grouped :: "string \<Rightarrow> string" where
  "grouped ds = rev (group_reversed (rev ds))"

text \<open>
  The three fraction digits of \<open>f\<close> thousandths (\<open>f < 1000\<close>) without trailing zeros.
\<close>

definition fraction_digits :: "nat \<Rightarrow> string" where
  "fraction_digits f =
     rev (dropWhile (\<lambda>c. c = CHR ''0'')
            (rev [digit_char (f div 100), digit_char (f div 10 mod 10), digit_char (f mod 10)]))"

text \<open>
  \<^verbatim>\<open>x.toLocaleString()\<close> in the locale \<^verbatim>\<open>en-US\<close> with the default options: a minus sign for a
  negative number, the integer digits in groups of three, and at most three fraction
  digits, rounded half away from zero, when the number is not whole. The model has no
  negative zero: \<^verbatim>\<open>Math.round\<close> of a number between \<open>-0.5\<close> and \<open>0\<close> prints as \<^verbatim>\<open>0\<close> here and as
  \<^verbatim>\<open>-0\<close> in JavaScript, and both read back as zero.
\<close>

definition toLocaleString :: "real \<Rightarrow> string" where
  "toLocaleString x =
     (let thousandths = nat \<lfloor>\<bar>x\<bar> * 1000 + 1 / 2\<rfloor>;
          whole = grouped (decimal (thousandths div 1000));
          fraction = fraction_digits (thousandths mod 1000)
      in (if x < 0 then ''-'' else '''') @ whole
           @ (if fraction = [] then [] else CHR ''.'' # fraction))"

text \<open>
  \<^verbatim>\<open>x.toFixed(1)\<close> for a finite \<open>x\<close> below \<open>10^21\<close>: one fraction digit, rounded half away from
  zero, no group separators.
\<close>

definition toFixed1 :: "real \<Rightarrow> string" where
  "toFixed1 x =
     (let tenths = nat \<lfloor>\<bar>x\<bar> * 10 + 1 / 2\<rfloor>
      in (if x < 0 then ''-'' else '''') @ decimal (tenths div 10)
           @ [CHR ''.'', digit_char (tenths mod 10)])"

text \<open>
  \<^verbatim>\<open>s.replace(/[$,]/g, '')\<close> drops every dollar sign and every comma.
\<close>

definition strip_money :: "string \<Rightarrow> string" where
  "strip_money s = filter (\<lambda>c. c \<noteq> CHR ''$'' \<and> c \<noteq> CHR '','') s"

definition is_digit :: "char \<Rightarrow> bool" where
  "is_digit c = (c \<in> set ''0123456789'')"

definition digit_value :: "char \<Rightarrow> nat" where
  "digit_value c = of_char c - 48"

definition digits_value :: "string \<Rightarrow> nat" where
  "digits_value ds = foldl (\<lambda>v c. 10 * v + digit_value c) 0 ds"

text \<open>
  \<^verbatim>\<open>parseFloat\<close> on a text that starts with an optional sign, digits and an optional
  fraction: the longest such prefix is read, and the result is \<^verbatim>\<open>NaN\<close> (here \<open>None\<close>)
  when the prefix has no digit. Leading white space, exponents and the word
  \<^verbatim>\<open>Infinity\<close>, which \<^verbatim>\<open>parseFloat\<close> also reads, are not modelled; no text the calculators
  produce from a finite number holds one.
\<close>

definition parseFloat :: "string \<Rightarrow> real option" where
  "parseFloat s =
     (let negative = (case s of c # _ \<Rightarrow> c = CHR ''-'' | [] \<Rightarrow> False);
          unsigned = (case s of c # t \<Rightarrow> if c = CHR ''-'' \<or> c = CHR ''+'' then t else s | [] \<Rightarrow> s);
          whole = takeWhile is_digit unsigned;
          fraction = (case dropWhile is_digit unsigned of
                        c # t \<Rightarrow> if c = CHR ''.'' then takeWhile is_digit t else []
                      | [] \<Rightarrow> []);
          magnitude = real (digits_value whole)
                        + real (digits_value fraction) / 10 ^ length fraction
      in if whole = [] \<and> fraction = [] then None
         else Some (if negative then - magnitude else magnitude))"

text \<open>The amount a formatted dollar text shows, read the way the investment route reads it.\<close>

definition amount_of :: "string \<Rightarrow> real option" where
  "amount_of s = parseFloat (strip_money s)"

section \<open>calculateSmartSplitStrategy\<close>

text \<open>
  The amounts that \<^verbatim>\<open>calculateSmartSplitStrategy\<close> computes before it formats them, one
  field for each local constant that the returned object uses. The fields whose names
  the returned object has too carry the suffix \<open>_amount\<close>.
\<close>

record split_amounts =
  cpp :: contributions
  ei :: contributions
  totalPersonalTax :: real
  corporateTax_amount :: real
  totalTax_amount :: real
  netCash :: real
  effectivePersonalRate :: real
  rrspRoom_amount :: real
  retainedEarnings :: real

definition smartSplitAmounts :: "real \<Rightarrow> real \<Rightarrow> real \<Rightarrow> split_amounts" where
  "smartSplitAmounts salary dividend netBusinessIncome =
     (let cpp = calculateCPPContributions salary;
          ei = calculateEIContributions salary;
          personalIncomeTax = calculatePersonalTax salary;
          dividendResult = calculateDividendTax dividend salary;
          totalSalaryExpense = salary + employer cpp + employer ei;
          corporateIncomeAfterSalary = max (netBusinessIncome - totalSalaryExpense) 0;
          corporateTax = corporateIncomeAfterSalary * SMALL_BUSINESS_RATE;
          retainedEarnings = corporateIncomeAfterSalary - corporateTax;
          rrspRoom = min (salary * 0.18) 31560;
          totalPersonalTax = personalIncomeTax + tax dividendResult;
          totalPayrollTaxes = employee cpp + employee ei + employer cpp + employer ei;
          totalTax = totalPersonalTax + totalPayrollTaxes + corporateTax;
          netCash = salary + dividend
                      - (personalIncomeTax + tax dividendResult + employee cpp + employee ei);
          personalTaxBurden = personalIncomeTax + tax dividendResult + employee cpp + employee ei;
          personalWithdrawal = salary + dividend;
          effectivePersonalRate =
            (if personalWithdrawal > 0 then personalTaxBurden / personalWithdrawal * 100 else 0)
      in \<lparr>cpp = cpp, ei = ei, totalPersonalTax = totalPersonalTax,
           corporateTax_amount = corporateTax, totalTax_amount = totalTax, netCash = netCash,
           effectivePersonalRate = effectivePersonalRate, rrspRoom_amount = rrspRoom,
           retainedEarnings = retainedEarnings\<rparr>)"

text \<open>
  The returned object: every amount as text. The keys \<^verbatim>\<open>salary\<close> and \<^verbatim>\<open>rrspRoom\<close> are the
  fields \<open>salary_text\<close> and \<open>rrspRoom_text\<close>.
\<close>

record split_strategy =
  salary_text :: string
  dividends :: string
  corporateTax :: string
  personalTax :: string
  totalTax :: string
  netIncome :: string
  effectiveTaxRate :: string
  rrspRoom_text :: string
  cppContributions :: string
  corporateRetained :: string

text \<open>\<^verbatim>\<open>`$${Math.round(x).toLocaleString()}`\<close>\<close>

definition dollars :: "real \<Rightarrow> string" where
  "dollars x = ''$'' @ toLocaleString (of_int (Math_round x))"

definition calculateSmartSplitStrategy :: "real \<Rightarrow> real \<Rightarrow> real \<Rightarrow> split_strategy" where
  "calculateSmartSplitStrategy salary dividend netBusinessIncome =
     (let a = smartSplitAmounts salary dividend netBusinessIncome
      in \<lparr>salary_text = ''$'' @ toLocaleString salary,
           dividends = ''$'' @ toLocaleString dividend,
           corporateTax = dollars (corporateTax_amount a),
           personalTax =
             dollars (totalPersonalTax a + employee (cpp a) + employee (ei a))
               @ '' (Tax: '' @ dollars (totalPersonalTax a)
               @ '', CPP: '' @ dollars (employee (cpp a))
               @ '', EI: '' @ dollars (employee (ei a)) @ '')'',
           totalTax = dollars (totalTax_amount a),
           netIncome = dollars (netCash a),
           effectiveTaxRate = toFixed1 (effectivePersonalRate a) @ ''%'',
           rrspRoom_text = dollars (rrspRoom_amount a),
           cppContributions = dollars (employee (cpp a) + employer (cpp a)),
           corporateRetained = dollars (max (retainedEarnings a - dividend) 0)\<rparr>)"

text \<open>
  The route \<^verbatim>\<open>/api/tax-calculation\<close>: the net business income it derives from revenue and
  expenses, and its four rows, the name of each strategy with the object
  \<^verbatim>\<open>calculateSmartSplitStrategy\<close> returns for its split of the withdrawal.
\<close>

definition netBusinessIncome_of :: "real \<Rightarrow> real \<Rightarrow> real" where
  "netBusinessIncome_of revenue expensesPercentage =
     (let expenses = revenue * expensesPercentage / 100 in revenue - expenses)"

definition taxCalculationStrategies :: "real \<Rightarrow> real \<Rightarrow> (string \<times> split_strategy) list" where
  "taxCalculationStrategies withdrawalAmount netBusinessIncome =
     [(''100% Salary'', calculateSmartSplitStrategy withdrawalAmount 0 netBusinessIncome),
      (''100% Dividend'', calculateSmartSplitStrategy 0 withdrawalAmount netBusinessIncome),
      (''50% Salary / 50% Dividend'',
         calculateSmartSplitStrategy (of_int (Math_round (withdrawalAmount * 0.5)))
           (of_int (Math_round (withdrawalAmount * 0.5))) netBusinessIncome),
      (''Optimal Mix (65% Salary / 35% Dividend)'',
         calculateSmartSplitStrategy (of_int (Math_round (withdrawalAmount * 0.65)))
           (of_int (Math_round (withdrawalAmount * 0.35))) netBusinessIncome)]"

text \<open>
  What a row reports, read from its formatted fields: a total tax that is not negative
  and a net income of at most \<open>bound\<close>.
\<close>

definition reports_tax_and_net :: "split_strategy \<Rightarrow> real \<Rightarrow> bool" where
  "reports_tax_and_net r bound =
     (case (amount_of (totalTax r), amount_of (netIncome r)) of
        (Some t, Some n) \<Rightarrow> 0 \<le> t \<and> n \<le> bound
      | _ \<Rightarrow> False)"

section \<open>calculateInvestmentStrategies\<close>

text \<open>
  The three rate lookups are \<^verbatim>\<open>switch\<close> statements on the income label with a
  \<^verbatim>\<open>default\<close> branch. Their result type has room for a failure, so that a lookup that
  rejects a label could be told from one that returns a rate; in the source every branch
  returns a rate.
\<close>

datatype error = InvalidInput

text \<open>The four income labels, the \<^verbatim>\<open>case\<close> labels of every lookup.\<close>

definition incomeBracketLabels :: "string list" where
  "incomeBracketLabels = [''Under $50K'', ''$50-100K'', ''$100-200K'', ''Over $200K'']"

definition getDividendRate :: "string \<Rightarrow> bool \<Rightarrow> error + real" where
  "getDividendRate income isRetirement =
     (if isRetirement then
        (if income = ''Under $50K'' then Inr 0.10
         else if income = ''$50-100K'' then Inr 0.2028
         else if income = ''$100-200K'' then Inr 0.30
         else if income = ''Over $200K'' then Inr 0.35
         else Inr 0.2028)
      else
        (if income = ''Under $50K'' then Inr 0.15
         else if income = ''$50-100K'' then Inr 0.25
         else if income = ''$100-200K'' then Inr 0.39
         else if income = ''Over $200K'' then Inr 0.45
         else Inr 0.39))"

definition getPersonalTaxRate :: "string \<Rightarrow> error + real" where
  "getPersonalTaxRate income =
     (if income = ''Under $50K'' then Inr 0.20
      else if income = ''$50-100K'' then Inr 0.2965
      else if income = ''$100-200K'' then Inr 0.35
      else if income = ''Over $200K'' then Inr 0.45
      else Inr 0.2965)"

definition getRrspRefundRate :: "string \<Rightarrow> error + real" where
  "getRrspRefundRate income =
     (if income = ''Under $50K'' then Inr 0.20
      else if income = ''$50-100K'' then Inr 0.35
      else if income = ''$100-200K'' then Inr 0.4116
      else if income = ''Over $200K'' then Inr 0.50
      else Inr 0.4116)"

text \<open>
  Amounts that may be \<^verbatim>\<open>NaN\<close>. The timeline of the input is a text, and the number of years
  the source reads from it is \<^verbatim>\<open>NaN\<close> when the text does not start with a number. Every
  amount computed from the years is then \<^verbatim>\<open>NaN\<close> too, so these amounts are
  \<^typ>\<open>real option\<close>, with \<open>None\<close> for \<^verbatim>\<open>NaN\<close>, and the arithmetic on them gives \<^verbatim>\<open>NaN\<close> as
  soon as one operand is \<^verbatim>\<open>NaN\<close>. Amounts computed from the other inputs alone stay
  \<^typ>\<open>real\<close>.
\<close>

definition plus_js :: "real option \<Rightarrow> real option \<Rightarrow> real option" where
  "plus_js a b = (case (a, b) of (Some x, Some y) \<Rightarrow> Some (x + y) | _ \<Rightarrow> None)"

definition subtract_js :: "real option \<Rightarrow> real option \<Rightarrow> real option" where
  "subtract_js a b = (case (a, b) of (Some x, Some y) \<Rightarrow> Some (x - y) | _ \<Rightarrow> None)"

definition times_js :: "real option \<Rightarrow> real option \<Rightarrow> real option" where
  "times_js a b = (case (a, b) of (Some x, Some y) \<Rightarrow> Some (x * y) | _ \<Rightarrow> None)"

text \<open>\<^verbatim>\<open>Math.min(a, b)\<close>\<close>

definition min_js :: "real option \<Rightarrow> real option \<Rightarrow> real option" where
  "min_js a b = (case (a, b) of (Some x, Some y) \<Rightarrow> Some (min x y) | _ \<Rightarrow> None)"

text \<open>\<^verbatim>\<open>Math.pow(x, n)\<close> for an exponent that is an integer or \<^verbatim>\<open>NaN\<close>.\<close>

definition Math_pow :: "real \<Rightarrow> int option \<Rightarrow> real option" where
  "Math_pow x n = (case n of Some k \<Rightarrow> Some (x powi k) | None \<Rightarrow> None)"

text \<open>
  \<^verbatim>\<open>`$${Math.round(a).toLocaleString()}`\<close>: \<^verbatim>\<open>Math.round\<close> of \<^verbatim>\<open>NaN\<close> is \<^verbatim>\<open>NaN\<close>, which prints as
  \<^verbatim>\<open>NaN\<close>.
\<close>

definition dollars_js :: "real option \<Rightarrow> string" where
  "dollars_js a = (case a of Some x \<Rightarrow> dollars x | None \<Rightarrow> ''$NaN'')"

text \<open>
  The quotient of two numbers in JavaScript: a division by zero does not fail, it gives
  an infinity, or \<^verbatim>\<open>NaN\<close> for zero by zero. The divisors of the source are differences and
  sums of differences, so a zero divisor is a positive zero.
\<close>

datatype js_number = Number real | PositiveInfinity | NegativeInfinity | NaN

definition divide_js :: "real \<Rightarrow> real \<Rightarrow> js_number" where
  "divide_js a b =
     (if b \<noteq> 0 then Number (a / b)
      else if 0 < a then PositiveInfinity
      else if a < 0 then NegativeInfinity
      else NaN)"

definition quotient_js :: "real option \<Rightarrow> real option \<Rightarrow> js_number" where
  "quotient_js a b = (case (a, b) of (Some x, Some y) \<Rightarrow> divide_js x y | _ \<Rightarrow> NaN)"

text \<open>\<^verbatim>\<open>`${(q * 100).toFixed(1)}%`\<close>\<close>

fun percent_text :: "js_number \<Rightarrow> string" where
  "percent_text (Number q) = toFixed1 (q * 100) @ ''%''"
| "percent_text PositiveInfinity = ''Infinity%''"
| "percent_text NegativeInfinity = ''-Infinity%''"
| "percent_text NaN = ''NaN%''"

subsection \<open>The years of the timeline\<close>

text \<open>
  \<^verbatim>\<open>s.replace(pattern, replacement)\<close> with a text as pattern replaces its first occurrence.
\<close>

fun replace_first :: "string \<Rightarrow> string \<Rightarrow> string \<Rightarrow> string" where
  "replace_first pattern replacement [] = (if pattern = [] then replacement else [])"
| "replace_first pattern replacement (c # cs) =
     (if take (length pattern) (c # cs) = pattern
      then replacement @ drop (length pattern) (c # cs)
      else c # replace_first pattern replacement cs)"

text \<open>
  \<^verbatim>\<open>parseInt(s)\<close> with no radix: white space at the start is skipped, a sign is read, the
  prefix \<^verbatim>\<open>0x\<close> or \<^verbatim>\<open>0X\<close> selects base sixteen, and the longest run of digits that follows is
  the value; with no digit the result is \<^verbatim>\<open>NaN\<close> (here \<open>None\<close>). The white space of the
  model is that of ASCII.
\<close>

definition is_space :: "char \<Rightarrow> bool" where
  "is_space c = (c \<in> set [CHR '' '', CHR 0x09, CHR 0x0A, CHR 0x0B, CHR 0x0C, CHR 0x0D])"

definition is_hex_digit :: "char \<Rightarrow> bool" where
  "is_hex_digit c = (c \<in> set ''0123456789abcdefABCDEF'')"

definition hex_digit_value :: "char \<Rightarrow> nat" where
  "hex_digit_value c =
     (if is_digit c then of_char c - 48
      else if c \<in> set ''abcdef'' then of_char c - 87
      else of_char c - 55)"

definition hex_digits_value :: "string \<Rightarrow> nat" where
  "hex_digits_value ds = foldl (\<lambda>v c. 16 * v + hex_digit_value c) 0 ds"

definition parseInt :: "string \<Rightarrow> int option" where
  "parseInt s =
     (let trimmed = dropWhile is_space s;
          negative = (case trimmed of c # _ \<Rightarrow> c = CHR ''-'' | [] \<Rightarrow> False);
          unsigned = (case trimmed of
                        c # t \<Rightarrow> if c = CHR ''-'' \<or> c = CHR ''+'' then t else trimmed
                      | [] \<Rightarrow> trimmed);
          hex = (take 2 unsigned = ''0x'' \<or> take 2 unsigned = ''0X'');
          digits = (if hex then takeWhile is_hex_digit (drop 2 unsigned)
                    else takeWhile is_digit unsigned);
          magnitude = (if hex then hex_digits_value digits else digits_value digits)
      in if digits = [] then None
         else Some (if negative then - int magnitude else int magnitude))"

subsection \<open>The three vehicles\<close>

record investment_strategy =
  strategy :: string
  initialInvestment :: string
  finalValue :: string
  totalTaxPaid :: string
  finalCashInPocket :: string
  effectiveTaxRate :: string
  auditRisk :: string

text \<open>
  The body of \<^verbatim>\<open>calculateInvestmentStrategies\<close>, one definition for each of the three
  vehicles, with the years and the looked-up rates as arguments.
\<close>

definition corporateStrategy :: "real \<Rightarrow> int option \<Rightarrow> real \<Rightarrow> investment_strategy" where
  "corporateStrategy investmentAmount years retirementDivRate =
     (let corpAmount = investmentAmount;
          corpFinalValue = times_js (Some corpAmount) (Math_pow 1.07 years);
          corpGains = subtract_js corpFinalValue (Some corpAmount);
          corpTaxableGains = times_js corpGains (Some 0.5);
          corpPassiveTax = times_js corpTaxableGains (Some 0.5017);
          refundableRDTOH = times_js corpTaxableGains (Some 0.3067);
          dividendRefund = min_js refundableRDTOH (times_js corpFinalValue (Some 0.3833));
          netCorpTax = subtract_js corpPassiveTax dividendRefund;
          availableForDividend = plus_js (subtract_js corpFinalValue netCorpTax) dividendRefund;
          personalDivTax = times_js availableForDividend (Some retirementDivRate);
          corpTotalTax = plus_js netCorpTax personalDivTax;
          corpFinalCash = subtract_js availableForDividend personalDivTax
      in \<lparr>strategy = ''Corporate Investment'',
           initialInvestment = ''$'' @ toLocaleString corpAmount,
           finalValue = dollars_js corpFinalValue,
           totalTaxPaid = dollars_js corpTotalTax @ '' (Passive: '' @ dollars_js netCorpTax
             @ '' + Dividend: '' @ dollars_js personalDivTax @ '')'',
           finalCashInPocket = dollars_js corpFinalCash,
           effectiveTaxRate = percent_text (quotient_js corpTotalTax corpGains),
           auditRisk = ''5-10%''\<rparr>)"

definition personalStrategy ::
  "real \<Rightarrow> int option \<Rightarrow> real \<Rightarrow> real \<Rightarrow> investment_strategy" where
  "personalStrategy investmentAmount years currentDivRate personalTaxRate =
     (let corpAmount = investmentAmount;
          extractionTax = corpAmount * currentDivRate;
          personalInvestment = corpAmount - extractionTax;
          personalFinalValue = times_js (Some personalInvestment) (Math_pow 1.07 years);
          personalGains = subtract_js personalFinalValue (Some personalInvestment);
          personalCapGainsTax =
            times_js (times_js personalGains (Some 0.5)) (Some personalTaxRate);
          personalTotalTax = plus_js (Some extractionTax) personalCapGainsTax;
          personalFinalCash = subtract_js personalFinalValue personalCapGainsTax
      in \<lparr>strategy = ''Personal Investment'',
           initialInvestment = dollars personalInvestment,
           finalValue = dollars_js personalFinalValue,
           totalTaxPaid = dollars_js personalTotalTax,
           finalCashInPocket = dollars_js personalFinalCash,
           effectiveTaxRate = percent_text (quotient_js personalTotalTax personalGains),
           auditRisk = ''5%''\<rparr>)"

definition rrspStrategy ::
  "real \<Rightarrow> real \<Rightarrow> int option \<Rightarrow> real \<Rightarrow> real \<Rightarrow> investment_strategy" where
  "rrspStrategy investmentAmount rrspRoom years rrspRefundRate personalTaxRate =
     (let rrspAmount = min investmentAmount rrspRoom;
          rrspInitialValue = times_js (Some rrspAmount) (Math_pow 1.07 years);
          rrspInitialGains = subtract_js rrspInitialValue (Some rrspAmount)
      in if rrspRoom > 0 then
           (let rrspRefund = rrspAmount * rrspRefundRate;
                refundFinalValue = times_js (Some rrspRefund) (Math_pow 1.07 years);
                rrspWithdrawalTax = times_js rrspInitialValue (Some personalTaxRate);
                refundGains = subtract_js refundFinalValue (Some rrspRefund);
                refundCapGainsTax =
                  times_js (times_js refundGains (Some 0.5)) (Some personalTaxRate);
                rrspTotalTax = plus_js rrspWithdrawalTax refundCapGainsTax;
                rrspFinalCash = plus_js (subtract_js rrspInitialValue rrspWithdrawalTax)
                                  (subtract_js refundFinalValue refundCapGainsTax)
            in \<lparr>strategy = ''RRSP Strategy'',
                 initialInvestment = ''$'' @ toLocaleString rrspAmount @ '' (RRSP) + ''
                   @ dollars rrspRefund @ '' (Refund)'',
                 finalValue = dollars_js (plus_js rrspInitialValue refundFinalValue),
                 totalTaxPaid = dollars_js rrspTotalTax,
                 finalCashInPocket = dollars_js rrspFinalCash,
                 effectiveTaxRate =
                   percent_text (quotient_js rrspTotalTax (plus_js rrspInitialGains refundGains)),
                 auditRisk = ''2%''\<rparr>)
         else
           \<lparr>strategy = ''RRSP Strategy'',
            initialInvestment = ''Not Available'',
            finalValue = ''Not Available'',
            totalTaxPaid = ''Not Available'',
            finalCashInPocket = ''Not Available'',
            effectiveTaxRate = ''N/A'',
            auditRisk = ''N/A''\<rparr>)"

text \<open>
  The local constant \<^verbatim>\<open>years\<close> of \<^verbatim>\<open>calculateInvestmentStrategies\<close>,
  \<^verbatim>\<open>parseInt(timeline.replace(' years', ''))\<close>.
\<close>

definition years_of_timeline :: "string \<Rightarrow> int option" where
  "years_of_timeline timeline = parseInt (replace_first '' years'' '''' timeline)"

definition calculateInvestmentStrategies ::
  "real \<Rightarrow> real \<Rightarrow> string \<Rightarrow> string \<Rightarrow> string \<Rightarrow> error + investment_strategy list" where
  "calculateInvestmentStrategies investmentAmount rrspRoom currentIncomeLevel
       withdrawalIncomeLevel timeline =
     (let years = years_of_timeline timeline
      in
     (case getDividendRate currentIncomeLevel False of
        Inl e \<Rightarrow> Inl e
      | Inr currentDivRate \<Rightarrow>
     (case getDividendRate withdrawalIncomeLevel True of
        Inl e \<Rightarrow> Inl e
      | Inr retirementDivRate \<Rightarrow>
     (case getPersonalTaxRate withdrawalIncomeLevel of
        Inl e \<Rightarrow> Inl e
      | Inr personalTaxRate \<Rightarrow>
     (case getRrspRefundRate currentIncomeLevel of
        Inl e \<Rightarrow> Inl e
      | Inr rrspRefundRate \<Rightarrow>
          Inr [corporateStrategy investmentAmount years retirementDivRate,
               personalStrategy investmentAmount years currentDivRate personalTaxRate,
               rrspStrategy investmentAmount rrspRoom years rrspRefundRate
                 personalTaxRate])))))"

section \<open>The ranking of the route /api/calculate-investment\<close>

text \<open>
  The route adds a risk level and a recommendation to every strategy. The recommendation
  is one of four texts, which the route writes and never reads:
  \<^item> \<open>NoRecommendation\<close>: the empty text every strategy starts with;
  \<^item> \<open>Optimal\<close>: \<^verbatim>\<open>OPTIMAL - Highest after-tax return for your situation\<close>, after a star
    (U+2B50);
  \<^item> \<open>ConsiderOptimal d\<close>: \<^verbatim>\<open>Consider optimal strategy - potentially $d more after-tax cash\<close>,
    with the difference \<open>d\<close> as \<^verbatim>\<open>toLocaleString\<close> prints it (\<open>None\<close> is \<^verbatim>\<open>NaN\<close>);
  \<^item> \<open>NotApplicable\<close>: \<^verbatim>\<open>Not applicable - No RRSP contribution room available\<close>.

  The narrative fields that the route takes from the text-generation service
  (description, advantages, considerations, bestFor, craCompliance) are left out; the
  model is the route after that service has answered.
\<close>

datatype recommendation = NoRecommendation | Optimal | ConsiderOptimal "real option" | NotApplicable

record final_strategy = investment_strategy +
  riskLevel :: string
  recommendation :: recommendation

definition finalStrategy :: "investment_strategy \<Rightarrow> final_strategy" where
  "finalStrategy s =
     investment_strategy.extend s
       (final_strategy.fields
          (if auditRisk s = ''2%'' then ''Low''
           else if auditRisk s = ''5%'' then ''Medium'' else ''Medium-High'')
          NoRecommendation)"

text \<open>
  The comparator of the sort, \<^verbatim>\<open>cashB - cashA\<close> on the amounts \<^verbatim>\<open>parseFloat\<close> reads; \<open>None\<close>
  is \<^verbatim>\<open>NaN\<close>.
\<close>

definition cash_of :: "final_strategy \<Rightarrow> real option" where
  "cash_of s = parseFloat (strip_money (finalCashInPocket s))"

definition compare_cash :: "final_strategy \<Rightarrow> final_strategy \<Rightarrow> real option" where
  "compare_cash a b = (let cashA = cash_of a; cashB = cash_of b in subtract_js cashB cashA)"

text \<open>
  \<^verbatim>\<open>Array.prototype.sort\<close> with a comparator: a stable sort, here by insertion, which
  puts \<open>x\<close> before \<open>y\<close> unless the comparator is positive; a comparator that is
  \<^verbatim>\<open>NaN\<close> counts as zero.
\<close>

fun insert_sorted :: "('a \<Rightarrow> 'a \<Rightarrow> real option) \<Rightarrow> 'a \<Rightarrow> 'a list \<Rightarrow> 'a list" where
  "insert_sorted cmp x [] = [x]"
| "insert_sorted cmp x (y # ys) =
     (if (case cmp x y of None \<Rightarrow> True | Some v \<Rightarrow> v \<le> 0) then x # y # ys
      else y # insert_sorted cmp x ys)"

definition Array_sort :: "('a \<Rightarrow> 'a \<Rightarrow> real option) \<Rightarrow> 'a list \<Rightarrow> 'a list" where
  "Array_sort cmp xs = foldr (insert_sorted cmp) xs []"

text \<open>The \<^verbatim>\<open>forEach\<close> over the sorted available strategies, by index.\<close>

fun recommend :: "final_strategy list \<Rightarrow> final_strategy list" where
  "recommend [] = []"
| "recommend (first # others) =
     first\<lparr>recommendation := Optimal\<rparr>
       # map (\<lambda>s. let optimalCash = cash_of first;
                       strategyCash = cash_of s;
                       difference = subtract_js optimalCash strategyCash
                   in s\<lparr>recommendation := ConsiderOptimal difference\<rparr>) others"

definition rankStrategies :: "investment_strategy list \<Rightarrow> final_strategy list" where
  "rankStrategies strategies =
     (let finalStrategies = map finalStrategy strategies;
          availableStrategies =
            filter (\<lambda>s. finalCashInPocket s \<noteq> ''Not Available'') finalStrategies;
          unavailableStrategies =
            filter (\<lambda>s. finalCashInPocket s = ''Not Available'') finalStrategies
      in recommend (Array_sort compare_cash availableStrategies)
           @ map (\<lambda>s. s\<lparr>recommendation := NotApplicable\<rparr>) unavailableStrategies)"

definition investmentRoute ::
  "real \<Rightarrow> real \<Rightarrow> string \<Rightarrow> string \<Rightarrow> string \<Rightarrow> error + final_strategy list" where
  "investmentRoute investmentAmount rrspRoom currentIncomeLevel withdrawalIncomeLevel timeline =
     (case calculateInvestmentStrategies investmentAmount rrspRoom currentIncomeLevel
             withdrawalIncomeLevel timeline of
        Inl e \<Rightarrow> Inl e
      | Inr strategies \<Rightarrow> Inr (rankStrategies strategies))"

text \<open>The available strategies of a ranking: those whose cash is not the sentinel.\<close>

definition available :: "final_strategy list \<Rightarrow> final_strategy list" where
  "available out = filter (\<lambda>s. finalCashInPocket s \<noteq> ''Not Available'') out"

section \<open>Properties of the bracket walk\<close>

lemma personalTaxLoop_stop: "r \<le> 0 \<Longrightarrow> personalTaxLoop bs t r = (t, r)"
  by (cases bs) simp_all

lemma spec_bracket_walk_stop: "r \<le> 0 \<Longrightarrow> spec_bracket_walk bs r = 0"
  by (cases bs) simp_all

lemma personalTaxLoop_fst:
  "fst (personalTaxLoop bs t r) = t + spec_bracket_walk bs r"
proof (induction bs arbitrary: t r)
  case Nil
  show ?case by simp
next
  case (Cons b bs)
  show ?case
  proof (cases "bracket_max b")
    case (Finite m)
    then show ?thesis by (simp add: Cons.IH Let_def)
  next
    case Infinity
    then show ?thesis by (simp add: Cons.IH Let_def)
  qed
qed

lemma personalTaxLoop_absorbs:
  "contiguous lo bs \<Longrightarrow> 0 \<le> r \<Longrightarrow> snd (personalTaxLoop bs t r) = 0"
proof (induction bs arbitrary: lo t r)
  case Nil
  then show ?case by simp
next
  case (Cons b bs)
  show ?case
  proof (cases "r \<le> 0")
    case True
    with Cons.prems show ?thesis by simp
  next
    case False
    show ?thesis
    proof (cases "bracket_max b")
      case (Finite m)
      with Cons.prems have c: "contiguous (m + 1) bs" by simp
      have "0 \<le> r - min r (m - bracket_min b + 1)" by simp
      from Cons.IH [OF c this] False Finite show ?thesis by (simp add: Let_def)
    next
      case Infinity
      with False show ?thesis by (simp add: Let_def personalTaxLoop_stop)
    qed
  qed
qed

lemma spec_bracket_walk_nonneg:
  "contiguous lo bs \<Longrightarrow> 0 \<le> spec_bracket_walk bs r"
proof (induction bs arbitrary: lo r)
  case Nil
  then show ?case by simp
next
  case (Cons b bs)
  show ?case
  proof (cases "bracket_max b")
    case (Finite m)
    with Cons.prems have c: "contiguous (m + 1) bs" and w: "0 \<le> m - bracket_min b + 1"
      and rt: "0 \<le> rate b" by simp_all
    from Cons.IH [OF c] Finite w rt show ?thesis by (simp add: min_def)
  next
    case Infinity
    with Cons.prems show ?thesis by (simp add: spec_bracket_walk_stop)
  qed
qed

lemma spec_bracket_walk_mono:
  "contiguous lo bs \<Longrightarrow> r \<le> r' \<Longrightarrow> spec_bracket_walk bs r \<le> spec_bracket_walk bs r'"
proof (induction bs arbitrary: lo r r')
  case Nil
  then show ?case by simp
next
  case (Cons b bs)
  show ?case
  proof (cases "r \<le> 0")
    case True
    then have "spec_bracket_walk (b # bs) r = 0" by (rule spec_bracket_walk_stop)
    with spec_bracket_walk_nonneg [OF Cons.prems(1)] show ?thesis by simp
  next
    case False
    with Cons.prems have pos: "0 < r" "0 < r'" by simp_all
    have rt: "0 \<le> rate b" using Cons.prems by simp
    show ?thesis
    proof (cases "bracket_max b")
      case (Finite m)
      with Cons.prems have c: "contiguous (m + 1) bs" by simp
      define w where "w = m - bracket_min b + 1"
      have a: "min r w * rate b \<le> min r' w * rate b"
        using Cons.prems(2) rt by (intro mult_right_mono) (simp_all add: min_def)
      have "r - min r w \<le> r' - min r' w" using Cons.prems(2) by (simp add: min_def)
      from Cons.IH [OF c this] a pos Finite show ?thesis by (simp add: w_def)
    next
      case Infinity
      from Cons.prems(2) rt have "r * rate b \<le> r' * rate b" by (rule mult_right_mono)
      with pos Infinity show ?thesis by (simp add: spec_bracket_walk_stop)
    qed
  qed
qed

lemma contiguous_min_ge:
  "contiguous lo bs \<Longrightarrow> b \<in> set bs \<Longrightarrow> lo \<le> bracket_min b"
proof (induction bs arbitrary: lo)
  case Nil
  then show ?case by simp
next
  case (Cons c cs)
  show ?case
  proof (cases "b = c")
    case True
    with Cons.prems show ?thesis by simp
  next
    case False
    with Cons.prems have mem: "b \<in> set cs" by simp
    then have ne: "cs \<noteq> []" by auto
    show ?thesis
    proof (cases "bracket_max c")
      case (Finite m)
      with Cons.prems have "contiguous (m + 1) cs" "lo \<le> m" by simp_all
      with Cons.IH [OF _ mem] show ?thesis by fastforce
    next
      case Infinity
      with Cons.prems ne show ?thesis by simp
    qed
  qed
qed

lemma spec_bracket_walk_slope:
  "contiguous lo bs \<Longrightarrow> b \<in> set bs \<Longrightarrow> on_piece b x \<Longrightarrow> on_piece b y \<Longrightarrow>
   spec_bracket_walk bs (y - lo) - spec_bracket_walk bs (x - lo) = rate b * (y - x)"
proof (induction bs arbitrary: lo)
  case Nil
  then show ?case by simp
next
  case (Cons c cs)
  show ?case
  proof (cases "b = c")
    case True
    have here: "spec_bracket_walk (c # cs) (z - lo) = (z - lo) * rate c" if "on_piece c z" for z
    proof (cases "bracket_max c")
      case (Finite m)
      with that Cons.prems(1) have "lo \<le> z" "z \<le> m + 1" "bracket_min c = lo"
        by (simp_all add: on_piece_def)
      with Finite show ?thesis by (simp add: spec_bracket_walk_stop min_def)
    next
      case Infinity
      with that Cons.prems(1) have "lo \<le> z" "bracket_min c = lo"
        by (simp_all add: on_piece_def)
      with Infinity show ?thesis by (simp add: spec_bracket_walk_stop)
    qed
    from Cons.prems(3,4) True have px: "on_piece c x" and py: "on_piece c y" by simp_all
    have "spec_bracket_walk (c # cs) (x - lo) = (x - lo) * rate c"
      and "spec_bracket_walk (c # cs) (y - lo) = (y - lo) * rate c"
      using here [OF px] here [OF py] by blast+
    with True show ?thesis by (simp only: algebra_simps)
  next
    case False
    with Cons.prems have mem: "b \<in> set cs" by simp
    then have ne: "cs \<noteq> []" by auto
    show ?thesis
    proof (cases "bracket_max c")
      case (Finite m)
      with Cons.prems have c: "contiguous (m + 1) cs" and lo: "lo \<le> m" "bracket_min c = lo"
        by simp_all
      from contiguous_min_ge [OF c mem] have bm: "m + 1 \<le> bracket_min b" .
      have there: "spec_bracket_walk (c # cs) (z - lo)
          = (m - lo + 1) * rate c + spec_bracket_walk cs (z - (m + 1))" if "on_piece b z" for z
      proof -
        from that bm have "m + 1 \<le> z" by (simp add: on_piece_def)
        with lo Finite show ?thesis by (simp add: min_def algebra_simps)
      qed
      from there Cons.prems(3,4)
      have "spec_bracket_walk (c # cs) (x - lo)
              = (m - lo + 1) * rate c + spec_bracket_walk cs (x - (m + 1))"
        and "spec_bracket_walk (c # cs) (y - lo)
              = (m - lo + 1) * rate c + spec_bracket_walk cs (y - (m + 1))"
        by blast+
      with Cons.IH [OF c mem Cons.prems(3,4)] show ?thesis by (simp only: algebra_simps)
    next
      case Infinity
      with Cons.prems ne show ?thesis by simp
    qed
  qed
qed

lemma contiguous_covers:
  "contiguous lo bs \<Longrightarrow> lo \<le> x \<Longrightarrow> \<exists>b\<in>set bs. on_piece b x"
proof (induction bs arbitrary: lo)
  case Nil
  then show ?case by simp
next
  case (Cons c cs)
  show ?case
  proof (cases "bracket_max c")
    case (Finite m)
    with Cons.prems have c: "contiguous (m + 1) cs" and lo: "bracket_min c = lo" by simp_all
    show ?thesis
    proof (cases "x \<le> m + 1")
      case True
      with Finite lo Cons.prems(2) have "on_piece c x" by (simp add: on_piece_def)
      then show ?thesis by auto
    next
      case False
      then have "m + 1 \<le> x" by simp
      from Cons.IH [OF c this] show ?thesis by auto
    qed
  next
    case Infinity
    with Cons.prems have "on_piece c x" by (simp add: on_piece_def)
    then show ?thesis by auto
  qed
qed

lemma spec_bracket_walk_portions:
  "contiguous lo bs \<Longrightarrow>
   spec_bracket_walk bs (x - lo) = (\<Sum>b\<leftarrow>bs. bracket_portion b x * rate b)"
proof (induction bs arbitrary: lo)
  case Nil
  then show ?case by simp
next
  case (Cons c cs)
  from Cons.prems have lo: "bracket_min c = lo" by simp
  show ?case
  proof (cases "bracket_max c")
    case (Finite m)
    with Cons.prems have c: "contiguous (m + 1) cs" and m: "lo \<le> m" by simp_all
    have rest: "spec_bracket_walk cs (x - (m + 1)) = (\<Sum>b\<leftarrow>cs. bracket_portion b x * rate b)"
      using c by (rule Cons.IH)
    show ?thesis
    proof (cases "x \<le> m + 1")
      case True
      then have "spec_bracket_walk cs (x - (m + 1)) = 0"
        by (intro spec_bracket_walk_stop) simp
      with rest have tail: "(\<Sum>b\<leftarrow>cs. bracket_portion b x * rate b) = 0" by simp
      have head: "spec_bracket_walk (c # cs) (x - lo) = bracket_portion c x * rate c"
        using True Finite lo m
        by (simp add: bracket_portion_def spec_bracket_walk_stop min_def max_def)
      show ?thesis by (simp only: list.map sum_list.Cons head tail add_0_right)
    next
      case False
      have head: "bracket_portion c x = m - lo + 1"
        using False Finite lo m by (simp add: bracket_portion_def min_def max_def)
      have walk: "spec_bracket_walk (c # cs) (x - lo)
          = (m - lo + 1) * rate c + spec_bracket_walk cs (x - (m + 1))"
        using False Finite lo m by (simp add: min_def algebra_simps)
      show ?thesis by (simp only: list.map sum_list.Cons head walk rest)
    qed
  next
    case Infinity
    with Cons.prems lo show ?thesis
      by (simp add: bracket_portion_def spec_bracket_walk_stop max_def)
  qed
qed

lemma PERSONAL_BRACKETS_contiguous: "contiguous 0 PERSONAL_BRACKETS"
  by (simp add: PERSONAL_BRACKETS_def)

lemma calculatePersonalTax_spec: "calculatePersonalTax x = spec_bracket_walk PERSONAL_BRACKETS x"
  by (simp add: calculatePersonalTax_def personalTaxLoop_fst)

lemma calculatePersonalTax_portions:
  "calculatePersonalTax x = (\<Sum>b\<leftarrow>PERSONAL_BRACKETS. bracket_portion b x * rate b)"
  using spec_bracket_walk_portions [OF PERSONAL_BRACKETS_contiguous, of x]
  by (simp add: calculatePersonalTax_spec)

lemma top_bracket_mem:
  "\<lparr>bracket_min = 246753, bracket_max = Infinity, rate = 0.4953\<rparr> \<in> set PERSONAL_BRACKETS"
  by (simp add: PERSONAL_BRACKETS_def)

text \<open>
  Claim C1. For every taxable income, \<^verbatim>\<open>calculatePersonalTax\<close> is the walk of the bracket
  table in ascending order that taxes \<open>min (remaining income, max - min + 1)\<close> of each
  bracket at the rate of that bracket, takes that amount off the remaining income and
  stops when nothing is left or the table is exhausted; that is the sum, over the
  brackets, of the part of the income that falls in the bracket times its rate. An income
  of zero or less owes nothing. A non-negative income leaves the loop with no income
  remaining, and what lies beyond the start of the last, unbounded bracket is taxed in
  full at its rate.
\<close>

theorem calculatePersonalTax_walks_brackets:
  "calculatePersonalTax x = spec_bracket_walk PERSONAL_BRACKETS x
   \<and> calculatePersonalTax x = (\<Sum>b\<leftarrow>PERSONAL_BRACKETS. bracket_portion b x * rate b)
   \<and> (x \<le> 0 \<longrightarrow> calculatePersonalTax x = 0)
   \<and> (0 \<le> x \<longrightarrow> snd (personalTaxLoop PERSONAL_BRACKETS 0 x) = 0)
   \<and> (246753 \<le> x \<longrightarrow>
        calculatePersonalTax x = calculatePersonalTax 246753 + (x - 246753) * 0.4953)"
proof (intro conjI impI)
  show "calculatePersonalTax x = spec_bracket_walk PERSONAL_BRACKETS x"
    by (rule calculatePersonalTax_spec)
  show "calculatePersonalTax x = (\<Sum>b\<leftarrow>PERSONAL_BRACKETS. bracket_portion b x * rate b)"
    by (rule calculatePersonalTax_portions)
  show "calculatePersonalTax x = 0" if "x \<le> 0"
    using that by (simp add: calculatePersonalTax_def personalTaxLoop_stop)
  show "snd (personalTaxLoop PERSONAL_BRACKETS 0 x) = 0" if "0 \<le> x"
    using PERSONAL_BRACKETS_contiguous that by (rule personalTaxLoop_absorbs)
  show "calculatePersonalTax x = calculatePersonalTax 246753 + (x - 246753) * 0.4953"
    if "246753 \<le> x"
  proof -
    let ?top = "\<lparr>bracket_min = 246753, bracket_max = Infinity, rate = 0.4953\<rparr>"
    have "on_piece ?top 246753" and "on_piece ?top x"
      using that by (simp_all add: on_piece_def)
    from spec_bracket_walk_slope [OF PERSONAL_BRACKETS_contiguous top_bracket_mem this]
    have "calculatePersonalTax x - calculatePersonalTax 246753 = (x - 246753) * 0.4953"
      by (simp add: calculatePersonalTax_spec)
    then show ?thesis by (simp only: diff_eq_eq add.commute)
  qed
qed

theorem calculatePersonalTax_walks_brackets_witness:
  "(- 5::real) \<le> 0 \<and> calculatePersonalTax (- 5) = 0
   \<and> (246753::real) \<le> 300000
   \<and> snd (personalTaxLoop PERSONAL_BRACKETS 0 300000) = 0
   \<and> calculatePersonalTax 300000 = calculatePersonalTax 246753 + (300000 - 246753) * 0.4953
   \<and> calculatePersonalTax 246753 = 81739.2383
   \<and> calculatePersonalTax 300000 = 108112.4774"
proof -
  have "calculatePersonalTax 246753 = 81739.2383"
    by (simp add: calculatePersonalTax_def PERSONAL_BRACKETS_def)
  with calculatePersonalTax_walks_brackets [of "- 5"]
    calculatePersonalTax_walks_brackets [of 300000]
  show ?thesis by simp
qed

text \<open>
  Claim C2. \<^verbatim>\<open>calculatePersonalTax\<close> never decreases when the income grows, and it is
  piecewise linear: between two incomes on the piece of one bracket the tax grows by the
  rate of that bracket times the difference. An income in the interval from \<^verbatim>\<open>min\<close> to
  \<^verbatim>\<open>max\<close> of a bracket is on the piece of that bracket, and every non-negative income is
  on some piece.
\<close>

theorem calculatePersonalTax_monotone_piecewise_linear:
  "(x \<le> y \<longrightarrow> calculatePersonalTax x \<le> calculatePersonalTax y)
   \<and> (\<forall>b\<in>set PERSONAL_BRACKETS. in_bracket b x \<longrightarrow> on_piece b x)
   \<and> (\<forall>b\<in>set PERSONAL_BRACKETS. on_piece b x \<and> on_piece b y \<longrightarrow>
         calculatePersonalTax y - calculatePersonalTax x = rate b * (y - x))
   \<and> (0 \<le> x \<longrightarrow> (\<exists>b\<in>set PERSONAL_BRACKETS. on_piece b x))"
proof (intro conjI impI ballI)
  show "calculatePersonalTax x \<le> calculatePersonalTax y" if "x \<le> y"
    using spec_bracket_walk_mono [OF PERSONAL_BRACKETS_contiguous that]
    by (simp add: calculatePersonalTax_spec)
  show "on_piece b x" if "in_bracket b x" for b
    using that by (auto simp: in_bracket_def on_piece_def split: bound.splits)
  show "calculatePersonalTax y - calculatePersonalTax x = rate b * (y - x)"
    if "b \<in> set PERSONAL_BRACKETS" and "on_piece b x \<and> on_piece b y" for b
    using spec_bracket_walk_slope [OF PERSONAL_BRACKETS_contiguous that(1), of x y] that(2)
    by (simp add: calculatePersonalTax_spec)
  show "\<exists>b\<in>set PERSONAL_BRACKETS. on_piece b x" if "0 \<le> x"
    using PERSONAL_BRACKETS_contiguous that by (rule contiguous_covers)
qed

theorem calculatePersonalTax_monotone_piecewise_linear_witness:
  "calculatePersonalTax 60000 \<le> calculatePersonalTax 70000
   \<and> in_bracket \<lparr>bracket_min = 55868, bracket_max = Finite 102894, rate = 0.2965\<rparr> 60000
   \<and> in_bracket \<lparr>bracket_min = 55868, bracket_max = Finite 102894, rate = 0.2965\<rparr> 70000
   \<and> calculatePersonalTax 70000 - calculatePersonalTax 60000 = 0.2965 * (70000 - 60000)"
  using calculatePersonalTax_monotone_piecewise_linear [of 60000 70000]
  by (simp add: PERSONAL_BRACKETS_def in_bracket_def on_piece_def)

text \<open>
  Claim C3. \<^verbatim>\<open>calculateDividendTax d y\<close> returns the grossed-up dividend \<open>d + d \<times> 0.15\<close>
  and, as tax, the incremental personal tax of the grossed-up dividend on top of the other
  income \<open>y\<close>, less the two dividend tax credits \<open>(0.090301 + 0.029863)\<close> of the grossed-up
  dividend, floored at zero; the tax is never negative.
\<close>

theorem calculateDividendTax_formula:
  "grossedUp (calculateDividendTax d y) = d + d * 0.15
   \<and> tax (calculateDividendTax d y) =
       max ((calculatePersonalTax (y + grossedUp (calculateDividendTax d y))
               - calculatePersonalTax y)
             - (0.090301 + 0.029863) * grossedUp (calculateDividendTax d y)) 0
   \<and> 0 \<le> tax (calculateDividendTax d y)"
  by (simp add: calculateDividendTax_def Let_def DIVIDEND_GROSS_UP_def
      DIVIDEND_FEDERAL_DTC_def DIVIDEND_ONTARIO_DTC_def algebra_simps)

text \<open>
  Claim C8. The employee contribution of \<^verbatim>\<open>calculateCPPContributions s\<close> is
  \<open>clamp (s - 3500, 0, 68500 - 3500) \<times> 0.0595 + clamp (s - 68500, 0, 73200 - 68500) \<times> 0.04\<close>
  and the employer contribution equals it. A salary of at most 3500 contributes nothing;
  at the salary 68500 the employee contribution is \<open>(68500 - 3500) \<times> 0.0595\<close> and the
  CPP2 component is zero.
\<close>

theorem calculateCPPContributions_formula:
  "employee (calculateCPPContributions s) =
      clamp (s - 3500) 0 (68500 - 3500) * 0.0595 + clamp (s - 68500) 0 (73200 - 68500) * 0.04
   \<and> employer (calculateCPPContributions s) = employee (calculateCPPContributions s)
   \<and> (s \<le> 3500 \<longrightarrow> employee (calculateCPPContributions s) = 0)
   \<and> employee (calculateCPPContributions 68500) = (68500 - 3500) * 0.0595
   \<and> cpp2 68500 = 0"
  by (simp add: calculateCPPContributions_def cpp1_def cpp2_def clamp_def Let_def
      CPP_YMPE_def CPP_BASIC_EXEMPTION_def CPP_EMPLOYEE_RATE_def CPP_YAMPE_def CPP_CPP2_RATE_def
      min_def max_def)

theorem calculateCPPContributions_formula_witness:
  "(1000::real) \<le> 3500 \<and> employee (calculateCPPContributions 1000) = 0
   \<and> employer (calculateCPPContributions 1000) = 0"
  using calculateCPPContributions_formula [of 1000] by simp

text \<open>
  Claim C10. The employee contribution of \<^verbatim>\<open>calculateCPPContributions\<close> is at most
  \<open>(68500 - 3500) \<times> 0.0595 + (73200 - 68500) \<times> 0.04 = 4055.50\<close> for every salary, and it is
  exactly that amount for every salary of 73200 or more.
\<close>

theorem calculateCPPContributions_ceiling:
  "(CPP_YMPE - CPP_BASIC_EXEMPTION) * CPP_EMPLOYEE_RATE + (CPP_YAMPE - CPP_YMPE) * CPP_CPP2_RATE
     = 4055.5
   \<and> employee (calculateCPPContributions s) \<le> 4055.5
   \<and> (73200 \<le> s \<longrightarrow> employee (calculateCPPContributions s) = 4055.5)"
  by (simp add: calculateCPPContributions_def cpp1_def cpp2_def Let_def
      CPP_YMPE_def CPP_BASIC_EXEMPTION_def CPP_EMPLOYEE_RATE_def CPP_YAMPE_def CPP_CPP2_RATE_def
      min_def max_def)

theorem calculateCPPContributions_ceiling_witness:
  "(73200::real) \<le> 80000 \<and> employee (calculateCPPContributions 80000) = 4055.5"
  using calculateCPPContributions_ceiling [of 80000] by simp

section \<open>Formatted amounts read back\<close>

lemma decimal_small: "n < 10 \<Longrightarrow> decimal n = [digit_char n]"
  by (simp add: decimal.simps)

lemma decimal_large: "10 \<le> n \<Longrightarrow> decimal n = decimal (n div 10) @ [digit_char (n mod 10)]"
  by (subst decimal.simps) simp

lemma below_ten: "d < (10::nat) \<Longrightarrow> d \<in> {0, 1, 2, 3, 4, 5, 6, 7, 8, 9}"
  by auto

lemma digit_char_is_digit: "d < 10 \<Longrightarrow> is_digit (digit_char d)"
  by (drule below_ten) (auto simp: digit_char_def is_digit_def)

lemma digit_value_digit_char: "d < 10 \<Longrightarrow> digit_value (digit_char d) = d"
  by (drule below_ten) (auto simp: digit_char_def digit_value_def)

lemma is_digit_not_mark:
  "is_digit c \<Longrightarrow> c \<noteq> CHR ''$'' \<and> c \<noteq> CHR '','' \<and> c \<noteq> CHR ''-'' \<and> c \<noteq> CHR ''+'' \<and> c \<noteq> CHR ''.''"
  by (auto simp: is_digit_def)

lemma decimal_digits: "c \<in> set (decimal n) \<Longrightarrow> is_digit c"
proof (induction n arbitrary: c rule: decimal.induct)
  case (1 n)
  show ?case
  proof (cases "n < 10")
    case True
    with "1.prems" show ?thesis by (simp add: decimal_small digit_char_is_digit)
  next
    case False
    then have "decimal n = decimal (n div 10) @ [digit_char (n mod 10)]"
      by (simp add: decimal_large)
    with "1.prems" "1.IH" [OF False] show ?thesis
      by (auto simp: digit_char_is_digit)
  qed
qed

lemma decimal_not_empty: "decimal n \<noteq> []"
  by (subst decimal.simps) simp

lemma digits_value_snoc: "digits_value (ds @ [c]) = 10 * digits_value ds + digit_value c"
  by (simp add: digits_value_def)

lemma digits_value_decimal: "digits_value (decimal n) = n"
proof (induction n rule: decimal.induct)
  case (1 n)
  show ?case
  proof (cases "n < 10")
    case True
    then show ?thesis by (simp add: decimal_small digits_value_def digit_value_digit_char)
  next
    case False
    then have "decimal n = decimal (n div 10) @ [digit_char (n mod 10)]"
      by (simp add: decimal_large)
    with "1.IH" [OF False] show ?thesis
      by (simp add: digits_value_snoc digit_value_digit_char)
  qed
qed

lemma strip_money_group_reversed: "strip_money (group_reversed ds) = strip_money ds"
  by (induction ds rule: group_reversed.induct) (simp_all add: strip_money_def)

lemma strip_money_grouped: "strip_money (grouped ds) = strip_money ds"
proof -
  have "strip_money (rev xs) = rev (strip_money xs)" for xs
    by (simp add: strip_money_def rev_filter)
  then show ?thesis by (simp add: grouped_def strip_money_group_reversed)
qed

lemma strip_money_digits: "\<forall>c\<in>set ds. is_digit c \<Longrightarrow> strip_money ds = ds"
  unfolding strip_money_def by (rule filter_True) (auto dest: is_digit_not_mark)

lemma strip_money_append: "strip_money (xs @ ys) = strip_money xs @ strip_money ys"
  by (simp add: strip_money_def)

lemma fraction_digits_zero: "fraction_digits 0 = []"
  by (simp add: fraction_digits_def digit_char_def)

lemma floor_int_half: "\<lfloor>real_of_int k + 1 / 2\<rfloor> = k"
  by linarith

lemma Math_round_of_int: "Math_round (of_int k) = k"
  by (simp add: Math_round_def floor_int_half)

lemma Math_round_mono: "x \<le> y \<Longrightarrow> Math_round x \<le> Math_round y"
  by (simp add: Math_round_def floor_mono)

lemma toLocaleString_of_int:
  "toLocaleString (of_int k) = (if k < 0 then ''-'' else '''') @ grouped (decimal (nat \<bar>k\<bar>))"
proof -
  have "\<bar>real_of_int k\<bar> * 1000 + 1 / 2 = real_of_int (\<bar>k\<bar> * 1000) + 1 / 2" by simp
  then have "\<lfloor>\<bar>real_of_int k\<bar> * 1000 + 1 / 2\<rfloor> = \<bar>k\<bar> * 1000"
    by (simp only: floor_int_half)
  then have "nat \<lfloor>\<bar>real_of_int k\<bar> * 1000 + 1 / 2\<rfloor> = nat \<bar>k\<bar> * 1000"
    by (simp add: nat_mult_distrib)
  then show ?thesis
    by (simp add: toLocaleString_def Let_def fraction_digits_zero)
qed

lemma digits_value_Nil: "digits_value [] = 0"
  by (simp add: digits_value_def)

lemma parseFloat_digits:
  assumes "\<forall>c\<in>set ds. is_digit c" and "ds \<noteq> []"
  shows "parseFloat ds = Some (real (digits_value ds))"
    and "parseFloat (CHR ''-'' # ds) = Some (- real (digits_value ds))"
proof -
  from assms have all: "takeWhile is_digit ds = ds" "dropWhile is_digit ds = []"
    by simp_all
  from assms obtain c t where ct: "ds = c # t" by (cases ds) auto
  with assms have "is_digit c" by simp
  then have c: "c \<noteq> CHR ''-''" "c \<noteq> CHR ''+''" using is_digit_not_mark by blast+
  have "parseFloat (c # t) = Some (real (digits_value (c # t)))"
    unfolding parseFloat_def Let_def list.case
    using c by (simp add: all [unfolded ct] digits_value_Nil del: takeWhile.simps dropWhile.simps)
  with ct show "parseFloat ds = Some (real (digits_value ds))" by simp
  show "parseFloat (CHR ''-'' # ds) = Some (- real (digits_value ds))"
    unfolding parseFloat_def Let_def list.case
    by (simp add: all assms(2) digits_value_Nil)
qed

lemma parseFloat_decimal: "parseFloat (decimal n) = Some (real n)"
  using parseFloat_digits(1) [of "decimal n"]
  by (simp add: decimal_digits decimal_not_empty digits_value_decimal)

lemma parseFloat_minus_decimal: "parseFloat (CHR ''-'' # decimal n) = Some (- real n)"
  using parseFloat_digits(2) [of "decimal n"]
  by (simp add: decimal_digits decimal_not_empty digits_value_decimal)

lemma amount_of_dollars: "amount_of (dollars x) = Some (of_int (Math_round x))"
proof -
  define k where "k = Math_round x"
  have s: "strip_money (grouped (decimal (nat \<bar>k\<bar>))) = decimal (nat \<bar>k\<bar>)"
    by (simp add: strip_money_grouped strip_money_digits decimal_digits)
  show ?thesis
  proof (cases "k < 0")
    case True
    then have "strip_money (dollars x) = CHR ''-'' # decimal (nat \<bar>k\<bar>)"
      using s by (simp add: dollars_def k_def [symmetric] toLocaleString_of_int strip_money_append)
        (simp add: strip_money_def)
    with True show ?thesis
      by (simp add: amount_of_def parseFloat_minus_decimal k_def [symmetric])
  next
    case False
    then have "strip_money (dollars x) = decimal (nat \<bar>k\<bar>)"
      using s by (simp add: dollars_def k_def [symmetric] toLocaleString_of_int strip_money_append)
        (simp add: strip_money_def)
    with False show ?thesis
      by (simp add: amount_of_def parseFloat_decimal k_def [symmetric])
  qed
qed

section \<open>The salary and dividend rows\<close>

lemma calculatePersonalTax_nonneg: "0 \<le> calculatePersonalTax x"
  using spec_bracket_walk_nonneg [OF PERSONAL_BRACKETS_contiguous, of x]
  by (simp add: calculatePersonalTax_def personalTaxLoop_fst)

lemma calculatePersonalTax_zero: "calculatePersonalTax 0 = 0"
  by (simp add: calculatePersonalTax_def personalTaxLoop_stop)

lemma cpp_nonneg:
  "0 \<le> employee (calculateCPPContributions s)" "0 \<le> employer (calculateCPPContributions s)"
  by (simp_all add: calculateCPPContributions_def cpp1_def cpp2_def Let_def
      CPP_YMPE_def CPP_BASIC_EXEMPTION_def CPP_EMPLOYEE_RATE_def CPP_YAMPE_def CPP_CPP2_RATE_def)

lemma ei_nonneg:
  assumes "0 \<le> s"
  shows "0 \<le> employee (calculateEIContributions s)" "0 \<le> employer (calculateEIContributions s)"
  using assms
  by (simp_all add: calculateEIContributions_def Let_def EI_MIE_def EI_EMPLOYEE_RATE_def
      EI_EMPLOYER_RATE_def)

lemma dividend_tax_nonneg: "0 \<le> tax (calculateDividendTax d y)"
  by (simp add: calculateDividendTax_def Let_def)

lemma smartSplitAmounts_bounds:
  assumes "0 \<le> salary"
  shows "0 \<le> totalTax_amount (smartSplitAmounts salary dividend nbi)"
    and "netCash (smartSplitAmounts salary dividend nbi) \<le> salary + dividend"
proof -
  note parts = calculatePersonalTax_nonneg [of salary] dividend_tax_nonneg [of dividend salary]
    cpp_nonneg [of salary] ei_nonneg [OF assms]
  have corp: "0 \<le> max (nbi - (salary + employer (calculateCPPContributions salary)
      + employer (calculateEIContributions salary))) 0 * SMALL_BUSINESS_RATE"
    by (simp add: SMALL_BUSINESS_RATE_def)
  show "0 \<le> totalTax_amount (smartSplitAmounts salary dividend nbi)"
    using parts corp by (simp add: smartSplitAmounts_def Let_def)
  show "netCash (smartSplitAmounts salary dividend nbi) \<le> salary + dividend"
    using parts by (simp add: smartSplitAmounts_def Let_def)
qed

lemma reports_tax_and_net_iff:
  "reports_tax_and_net (calculateSmartSplitStrategy s d nbi) bound \<longleftrightarrow>
     0 \<le> Math_round (totalTax_amount (smartSplitAmounts s d nbi))
     \<and> real_of_int (Math_round (netCash (smartSplitAmounts s d nbi))) \<le> bound"
  by (simp add: reports_tax_and_net_def calculateSmartSplitStrategy_def Let_def amount_of_dollars)

lemma Math_round_nonneg: "0 \<le> x \<Longrightarrow> 0 \<le> Math_round x"
  by (simp add: Math_round_def)

lemma Math_round_Ints: "x \<in> \<int> \<Longrightarrow> real_of_int (Math_round x) = x"
  by (auto simp: Ints_def Math_round_of_int)

text \<open>
  Claim C9, as amended. For every withdrawal amount that is not negative and every net
  business income, the rows \<^verbatim>\<open>100% Salary\<close> and \<^verbatim>\<open>100% Dividend\<close> have a total tax that is
  not negative and a net cash of at most the withdrawal amount before rounding. The
  \<^verbatim>\<open>totalTax\<close> they report is not negative, and the \<^verbatim>\<open>netIncome\<close> they report, which is
  rounded to whole dollars, is at most the withdrawal amount rounded to whole dollars,
  hence at most the withdrawal amount when that is a whole number of dollars.
\<close>

theorem split_strategies_tax_and_net_income:
  assumes "0 \<le> w"
  shows "taxCalculationStrategies w nbi ! 0 = (''100% Salary'', calculateSmartSplitStrategy w 0 nbi)
    \<and> taxCalculationStrategies w nbi ! 1 = (''100% Dividend'', calculateSmartSplitStrategy 0 w nbi)
    \<and> 0 \<le> totalTax_amount (smartSplitAmounts w 0 nbi)
    \<and> 0 \<le> totalTax_amount (smartSplitAmounts 0 w nbi)
    \<and> netCash (smartSplitAmounts w 0 nbi) \<le> w
    \<and> netCash (smartSplitAmounts 0 w nbi) \<le> w
    \<and> reports_tax_and_net (calculateSmartSplitStrategy w 0 nbi) (of_int (Math_round w))
    \<and> reports_tax_and_net (calculateSmartSplitStrategy 0 w nbi) (of_int (Math_round w))
    \<and> (w \<in> \<int> \<longrightarrow> reports_tax_and_net (calculateSmartSplitStrategy w 0 nbi) w
                 \<and> reports_tax_and_net (calculateSmartSplitStrategy 0 w nbi) w)"
proof -
  have rows: "taxCalculationStrategies w nbi ! 0 = (''100% Salary'', calculateSmartSplitStrategy w 0 nbi)"
    "taxCalculationStrategies w nbi ! 1 = (''100% Dividend'', calculateSmartSplitStrategy 0 w nbi)"
    by (simp_all add: taxCalculationStrategies_def)
  have s: "0 \<le> totalTax_amount (smartSplitAmounts w 0 nbi)"
    "netCash (smartSplitAmounts w 0 nbi) \<le> w"
    using smartSplitAmounts_bounds [OF assms, of 0 nbi] by simp_all
  have d: "0 \<le> totalTax_amount (smartSplitAmounts 0 w nbi)"
    "netCash (smartSplitAmounts 0 w nbi) \<le> w"
    using smartSplitAmounts_bounds [of 0 w nbi] by simp_all
  have rs: "reports_tax_and_net (calculateSmartSplitStrategy w 0 nbi) (of_int (Math_round w))"
    using Math_round_nonneg [OF s(1)] Math_round_mono [OF s(2)]
    by (simp add: reports_tax_and_net_iff)
  have rd: "reports_tax_and_net (calculateSmartSplitStrategy 0 w nbi) (of_int (Math_round w))"
    using Math_round_nonneg [OF d(1)] Math_round_mono [OF d(2)]
    by (simp add: reports_tax_and_net_iff)
  have ints: "reports_tax_and_net (calculateSmartSplitStrategy w 0 nbi) w
      \<and> reports_tax_and_net (calculateSmartSplitStrategy 0 w nbi) w" if "w \<in> \<int>"
  proof -
    from that have "real_of_int (Math_round w) = w" by (rule Math_round_Ints)
    with rs rd show ?thesis by simp
  qed
  from rows s d rs rd ints show ?thesis by blast
qed

theorem split_strategies_tax_and_net_income_witness:
  "(0::real) \<le> 100000
   \<and> taxCalculationStrategies 100000 140000 ! 0
        = (''100% Salary'', calculateSmartSplitStrategy 100000 0 140000)
   \<and> netCash (smartSplitAmounts 0 100000 140000) \<le> 100000
   \<and> reports_tax_and_net (calculateSmartSplitStrategy 100000 0 140000) 100000
   \<and> reports_tax_and_net (calculateSmartSplitStrategy 0 100000 140000) 100000"
  using split_strategies_tax_and_net_income [of 100000 140000] by simp

lemma netCash_dividend_090: "netCash (smartSplitAmounts 0 0.9 1000) = 0.81685224"
  by (simp add: smartSplitAmounts_def Let_def calculateCPPContributions_def cpp1_def cpp2_def
      calculateEIContributions_def calculateDividendTax_def calculatePersonalTax_def
      PERSONAL_BRACKETS_def CPP_YMPE_def CPP_BASIC_EXEMPTION_def CPP_EMPLOYEE_RATE_def
      CPP_YAMPE_def CPP_CPP2_RATE_def EI_MIE_def EI_EMPLOYEE_RATE_def EI_EMPLOYER_RATE_def
      DIVIDEND_GROSS_UP_def DIVIDEND_FEDERAL_DTC_def DIVIDEND_ONTARIO_DTC_def
      SMALL_BUSINESS_RATE_def)

text \<open>
  Claim C9 as stated fails for a withdrawal that is not a whole number of dollars: for a
  withdrawal of 0.90 paid as a dividend the net cash is 0.81685224, and the row reports
  the net income \<^verbatim>\<open>$1\<close>, more than the withdrawal.
\<close>

theorem split_strategies_net_income_counterexample:
  "(0::real) \<le> 0.9
   \<and> taxCalculationStrategies 0.9 1000 ! 1 = (''100% Dividend'', calculateSmartSplitStrategy 0 0.9 1000)
   \<and> netIncome (calculateSmartSplitStrategy 0 0.9 1000) = ''$1''
   \<and> amount_of (netIncome (calculateSmartSplitStrategy 0 0.9 1000)) = Some 1
   \<and> \<not> reports_tax_and_net (calculateSmartSplitStrategy 0 0.9 1000) 0.9"
proof -
  have r: "Math_round (netCash (smartSplitAmounts 0 0.9 1000)) = 1"
    by (simp add: netCash_dividend_090 Math_round_def)
  have n: "netIncome (calculateSmartSplitStrategy 0 0.9 1000) = ''$1''"
    by (simp add: calculateSmartSplitStrategy_def Let_def dollars_def r toLocaleString_of_int
        grouped_def decimal_small digit_char_def)
  have a: "amount_of (netIncome (calculateSmartSplitStrategy 0 0.9 1000)) = Some 1"
    by (simp add: calculateSmartSplitStrategy_def Let_def amount_of_dollars r)
  have "\<not> reports_tax_and_net (calculateSmartSplitStrategy 0 0.9 1000) 0.9"
    by (simp add: reports_tax_and_net_iff r)
  with n a show ?thesis by (simp add: taxCalculationStrategies_def)
qed

section \<open>The investment comparator\<close>

lemma finalStrategy_fields:
  "finalCashInPocket (finalStrategy s) = finalCashInPocket s"
  "strategy (finalStrategy s) = strategy s"
  "initialInvestment (finalStrategy s) = initialInvestment s"
  "finalValue (finalStrategy s) = finalValue s"
  "totalTaxPaid (finalStrategy s) = totalTaxPaid s"
  "investment_strategy.effectiveTaxRate (finalStrategy s) = investment_strategy.effectiveTaxRate s"
  "recommendation (finalStrategy s) = NoRecommendation"
  by (simp_all add: finalStrategy_def investment_strategy.defs final_strategy.defs)

text \<open>
  Claim C4 as stated fails: for the label \<^verbatim>\<open>Over $1M\<close>, which is none of the four income
  labels, no lookup fails; the personal rate lookup returns the rate 0.2965.
\<close>

theorem rate_lookups_default_counterexample:
  "''Over $1M'' \<notin> set incomeBracketLabels
   \<and> getDividendRate ''Over $1M'' False \<noteq> Inl InvalidInput
   \<and> getDividendRate ''Over $1M'' True \<noteq> Inl InvalidInput
   \<and> getPersonalTaxRate ''Over $1M'' \<noteq> Inl InvalidInput
   \<and> getRrspRefundRate ''Over $1M'' \<noteq> Inl InvalidInput
   \<and> getPersonalTaxRate ''Over $1M'' = Inr 0.2965"
  by (simp add: incomeBracketLabels_def getDividendRate_def getPersonalTaxRate_def
      getRrspRefundRate_def)

text \<open>
  Claim C4, as amended. For every label outside the four income labels each lookup
  returns the rate of its \<^verbatim>\<open>default\<close> branch: 0.39 for the dividend rate on the current
  income, 0.2028 for the dividend rate in retirement, 0.2965 for the personal rate and
  0.4116 for the RRSP refund rate. No lookup fails.
\<close>

theorem rate_lookups_default:
  assumes "label \<notin> set incomeBracketLabels"
  shows "getDividendRate label False = Inr 0.39
    \<and> getDividendRate label True = Inr 0.2028
    \<and> getPersonalTaxRate label = Inr 0.2965
    \<and> getRrspRefundRate label = Inr 0.4116"
  using assms
  by (simp add: incomeBracketLabels_def getDividendRate_def getPersonalTaxRate_def
      getRrspRefundRate_def)

theorem rate_lookups_default_witness:
  "''Over $1M'' \<notin> set incomeBracketLabels
   \<and> getDividendRate ''Over $1M'' False = Inr 0.39
   \<and> getDividendRate ''Over $1M'' True = Inr 0.2028
   \<and> getPersonalTaxRate ''Over $1M'' = Inr 0.2965
   \<and> getRrspRefundRate ''Over $1M'' = Inr 0.4116"
proof -
  have h: "''Over $1M'' \<notin> set incomeBracketLabels"
    by (simp add: incomeBracketLabels_def)
  from h rate_lookups_default [OF h] show ?thesis by simp
qed

lemma lookups_never_fail:
  "getDividendRate l b \<noteq> Inl e" "getPersonalTaxRate l \<noteq> Inl e"
  "getRrspRefundRate l \<noteq> Inl e"
  by (simp_all add: getDividendRate_def getPersonalTaxRate_def getRrspRefundRate_def)

lemma calculateInvestmentStrategies_total:
  obtains cd rd pt rr where
    "calculateInvestmentStrategies investmentAmount rrspRoom cur wd timeline =
       Inr [corporateStrategy investmentAmount (years_of_timeline timeline) rd,
            personalStrategy investmentAmount (years_of_timeline timeline) cd pt,
            rrspStrategy investmentAmount rrspRoom (years_of_timeline timeline) rr pt]"
proof -
  obtain cd where cd: "getDividendRate cur False = Inr cd"
    using lookups_never_fail(1) by (cases "getDividendRate cur False") auto
  obtain rd where rd: "getDividendRate wd True = Inr rd"
    using lookups_never_fail(1) by (cases "getDividendRate wd True") auto
  obtain pt where pt: "getPersonalTaxRate wd = Inr pt"
    using lookups_never_fail(2) by (cases "getPersonalTaxRate wd") auto
  obtain rr where rr: "getRrspRefundRate cur = Inr rr"
    using lookups_never_fail(3) by (cases "getRrspRefundRate cur") auto
  have "calculateInvestmentStrategies investmentAmount rrspRoom cur wd timeline =
       Inr [corporateStrategy investmentAmount (years_of_timeline timeline) rd,
            personalStrategy investmentAmount (years_of_timeline timeline) cd pt,
            rrspStrategy investmentAmount rrspRoom (years_of_timeline timeline) rr pt]"
    by (simp add: calculateInvestmentStrategies_def Let_def cd rd pt rr)
  then show thesis by (rule that)
qed

text \<open>The arithmetic on amounts that may be \<^verbatim>\<open>NaN\<close>, on numbers and on \<^verbatim>\<open>NaN\<close>.\<close>

lemma js_numbers:
  "plus_js (Some x) (Some y) = Some (x + y)"
  "subtract_js (Some x) (Some y) = Some (x - y)"
  "times_js (Some x) (Some y) = Some (x * y)"
  "min_js (Some x) (Some y) = Some (min x y)"
  "Math_pow x (Some k) = Some (x powi k)"
  "dollars_js (Some x) = dollars x"
  "quotient_js (Some x) (Some y) = divide_js x y"
  by (simp_all add: plus_js_def subtract_js_def times_js_def min_js_def Math_pow_def
      dollars_js_def quotient_js_def)


lemmas timeline_eval = years_of_timeline_def parseInt_def is_space_def is_digit_def
  is_hex_digit_def digits_value_def digit_value_def

lemmas rate_eval = getDividendRate_def getPersonalTaxRate_def getRrspRefundRate_def

text \<open>
  Claim C5 at the inputs where the nominal gains are zero. With a timeline of 0 years
  the effective tax rate of each of the three vehicles is the text \<^verbatim>\<open>Infinity%\<close>, and with
  nothing to invest it is \<^verbatim>\<open>NaN%\<close>: the division by the gains is not guarded. The
  effective rate of \<^verbatim>\<open>calculateSmartSplitStrategy\<close> is guarded: with nothing withdrawn it is
  \<^verbatim>\<open>0.0%\<close>.
\<close>

theorem effective_rate_unguarded_at_zero_gains:
  "(case calculateInvestmentStrategies 100000 20000 ''$50-100K'' ''$50-100K'' ''0 years'' of
      Inr ss \<Rightarrow> map investment_strategy.effectiveTaxRate ss | Inl e \<Rightarrow> [])
     = [''Infinity%'', ''Infinity%'', ''Infinity%'']
   \<and> (case calculateInvestmentStrategies 0 20000 ''$50-100K'' ''$50-100K'' ''10 years'' of
      Inr ss \<Rightarrow> map investment_strategy.effectiveTaxRate ss | Inl e \<Rightarrow> [])
     = [''NaN%'', ''NaN%'', ''NaN%'']
   \<and> split_strategy.effectiveTaxRate (calculateSmartSplitStrategy 0 0 1000) = ''0.0%''"
proof -
  have y0: "years_of_timeline ''0 years'' = Some 0"
    and y10: "years_of_timeline ''10 years'' = Some 10"
    by (simp_all add: timeline_eval)
  have a: "investment_strategy.effectiveTaxRate (corporateStrategy 100000 (Some 0) 0.2028)
             = ''Infinity%''"
    "investment_strategy.effectiveTaxRate (personalStrategy 100000 (Some 0) 0.25 0.2965)
       = ''Infinity%''"
    "investment_strategy.effectiveTaxRate (rrspStrategy 100000 20000 (Some 0) 0.35 0.2965)
       = ''Infinity%''"
    by (simp_all add: corporateStrategy_def personalStrategy_def rrspStrategy_def Let_def
        js_numbers divide_js_def cong: let_weak_cong)
  have b: "investment_strategy.effectiveTaxRate (corporateStrategy 0 (Some 10) 0.2028) = ''NaN%''"
    "investment_strategy.effectiveTaxRate (personalStrategy 0 (Some 10) 0.25 0.2965) = ''NaN%''"
    "investment_strategy.effectiveTaxRate (rrspStrategy 0 20000 (Some 10) 0.35 0.2965) = ''NaN%''"
    by (simp_all add: corporateStrategy_def personalStrategy_def rrspStrategy_def Let_def
        js_numbers divide_js_def cong: let_weak_cong)
  have "effectivePersonalRate (smartSplitAmounts 0 0 1000) = 0"
    by (simp add: smartSplitAmounts_def Let_def)
  then have c: "split_strategy.effectiveTaxRate (calculateSmartSplitStrategy 0 0 1000) = ''0.0%''"
    by (simp add: calculateSmartSplitStrategy_def Let_def toFixed1_def decimal_small
        digit_char_def)
  from a b c show ?thesis
    by (simp add: calculateInvestmentStrategies_def Let_def rate_eval y0 y10)
qed
section \<open>The ranking\<close>



lemma Array_sort_pair:
  "Array_sort cmp [x, y] =
     (if (case cmp x y of None \<Rightarrow> True | Some v \<Rightarrow> v \<le> 0) then [x, y] else [y, x])"
  by (simp add: Array_sort_def)





lemma cash_of_recommendation [simp]: "cash_of (s\<lparr>recommendation := r\<rparr>) = cash_of s"
  by (simp add: cash_of_def)




lemma vehicle_names:
  "strategy (corporateStrategy investmentAmount years rd) = ''Corporate Investment''"
  "strategy (personalStrategy investmentAmount years cd pt) = ''Personal Investment''"
  by (simp_all add: corporateStrategy_def personalStrategy_def Let_def)

text \<open>
  The cash of each vehicle is a formatted amount, the text \<^verbatim>\<open>$NaN\<close> or the sentinel; it is
  a formatted number when the years are a number.
\<close>

lemma dollars_js_not_sentinel: "dollars_js a \<noteq> ''Not Available''"
  by (cases a) (simp_all add: dollars_js_def dollars_def)

lemma vehicle_shown:
  "finalCashInPocket (corporateStrategy investmentAmount years rd) \<noteq> ''Not Available''"
  "finalCashInPocket (personalStrategy investmentAmount years cd pt) \<noteq> ''Not Available''"
  by (simp_all add: corporateStrategy_def personalStrategy_def Let_def dollars_js_not_sentinel)










lemma rrsp_without_room:
  assumes "rrspRoom \<le> 0"
  shows "rrspStrategy investmentAmount rrspRoom years rr pt =
     \<lparr>strategy = ''RRSP Strategy'', initialInvestment = ''Not Available'',
      finalValue = ''Not Available'', totalTaxPaid = ''Not Available'',
      finalCashInPocket = ''Not Available'',
      effectiveTaxRate = ''N/A'', auditRisk = ''N/A''\<rparr>"
  using assms by (simp add: rrspStrategy_def Let_def)

text \<open>
  Claim C6. Without RRSP room (\<^verbatim>\<open>rrspRoom\<close> zero, or less) the ranking has three entries. The
  last is the RRSP strategy: its fields \<^verbatim>\<open>initialInvestment\<close>, \<^verbatim>\<open>finalValue\<close>,
  \<^verbatim>\<open>totalTaxPaid\<close> and \<^verbatim>\<open>finalCashInPocket\<close> are the text \<^verbatim>\<open>Not Available\<close> and its
  recommendation says it is not applicable. The available strategies are the two others,
  neither of them the RRSP strategy; they carry the optimal mark and the cash difference.
\<close>

theorem rrsp_not_available_without_room:
  assumes "rrspRoom \<le> 0"
  shows "\<exists>a b r. investmentRoute investmentAmount rrspRoom cur wd timeline = Inr [a, b, r]
     \<and> strategy r = ''RRSP Strategy''
     \<and> initialInvestment r = ''Not Available''
     \<and> finalValue r = ''Not Available''
     \<and> totalTaxPaid r = ''Not Available''
     \<and> finalCashInPocket r = ''Not Available''
     \<and> recommendation r = NotApplicable
     \<and> available [a, b, r] = [a, b]
     \<and> strategy a \<noteq> ''RRSP Strategy'' \<and> strategy b \<noteq> ''RRSP Strategy''
     \<and> recommendation a = Optimal \<and> (\<exists>d. recommendation b = ConsiderOptimal d)"
proof -
  obtain cd rd pt rr where calc:
    "calculateInvestmentStrategies investmentAmount rrspRoom cur wd timeline =
       Inr [corporateStrategy investmentAmount (years_of_timeline timeline) rd,
            personalStrategy investmentAmount (years_of_timeline timeline) cd pt,
            rrspStrategy investmentAmount rrspRoom (years_of_timeline timeline) rr pt]"
    by (rule calculateInvestmentStrategies_total)
  define c where
    "c = finalStrategy (corporateStrategy investmentAmount (years_of_timeline timeline) rd)"
  define p where
    "p = finalStrategy (personalStrategy investmentAmount (years_of_timeline timeline) cd pt)"
  define r where
    "r = finalStrategy (rrspStrategy investmentAmount rrspRoom (years_of_timeline timeline) rr pt)"
  have c: "finalCashInPocket c \<noteq> ''Not Available''" "strategy c = ''Corporate Investment''"
    by (simp_all add: c_def finalStrategy_fields vehicle_names vehicle_shown)
  have p: "finalCashInPocket p \<noteq> ''Not Available''" "strategy p = ''Personal Investment''"
    by (simp_all add: p_def finalStrategy_fields vehicle_names vehicle_shown)
  have r: "finalCashInPocket r = ''Not Available''" "strategy r = ''RRSP Strategy''"
    "initialInvestment r = ''Not Available''" "finalValue r = ''Not Available''"
    "totalTaxPaid r = ''Not Available''"
    by (simp_all add: r_def finalStrategy_fields rrsp_without_room [OF assms])
  have route: "investmentRoute investmentAmount rrspRoom cur wd timeline =
      Inr (recommend (Array_sort compare_cash [c, p]) @ [r\<lparr>recommendation := NotApplicable\<rparr>])"
    using c(1) p(1) r(1)
    by (simp add: investmentRoute_def calc rankStrategies_def Let_def c_def [symmetric]
        p_def [symmetric] r_def [symmetric])
  show ?thesis
  proof (cases "case compare_cash c p of None \<Rightarrow> True | Some v \<Rightarrow> v \<le> 0")
    case True
    then have "Array_sort compare_cash [c, p] = [c, p]" by (simp add: Array_sort_pair)
    with route c p r show ?thesis by (simp add: available_def Let_def)
  next
    case False
    then have "Array_sort compare_cash [c, p] = [p, c]" by (simp add: Array_sort_pair)
    with route c p r show ?thesis by (simp add: available_def Let_def)
  qed
qed

theorem rrsp_not_available_without_room_witness:
  "(0::real) \<le> 0
   \<and> (\<exists>a b r. investmentRoute 1000 0 ''$50-100K'' ''$50-100K'' ''1 years'' = Inr [a, b, r]
        \<and> strategy r = ''RRSP Strategy''
        \<and> finalCashInPocket r = ''Not Available''
        \<and> recommendation r = NotApplicable
        \<and> available [a, b, r] = [a, b])"
proof -
  have h: "(0::real) \<le> 0" by simp
  from rrsp_not_available_without_room [OF h, of 1000 "''$50-100K''" "''$50-100K''" "''1 years''"]
  show ?thesis by blast
qed

end
